theory Spec2Isabelle
  imports Complex_Main
begin

section \<open>The momentum backtest engine of \<open>src/utils.py\<close>\<close>

text \<open>
  The engine is a pipeline of pandas operations on a price series. A pandas \<open>Series\<close> of
  floats is modelled as a list; a missing value (NaN, as produced by \<open>pct_change\<close>,
  \<open>rolling\<close>, \<open>shift\<close> and \<open>diff\<close> at the start of a series) is \<open>None\<close>.
  Arithmetic is that of the real numbers: the model computes the exact value of each
  expression, and the rounding of IEEE doubles is outside it. Whether an exact value
  lies in the range of the finite doubles is stated separately (\<open>in_double_range\<close>).
  Prices are taken to be nonzero (the data model has them positive), so that the
  quotient in \<open>pct_change\<close> is an ordinary real quotient.

  Both \<open>raise ValueError(...)\<close> statements of \<open>momentum_backtest\<close> are branches of
  the model: the one with the message "Lookback window must be positive" is
  \<open>InvalidParameter\<close>, the one with "Not enough data points" is \<open>InsufficientData\<close>.
\<close>

datatype error = InvalidParameter | InsufficientData

record results =
  cagr :: "real option"
  sharpe :: "real option"
  max_dd :: "real option"
  returns :: "real list"
  equity :: "real list"

subsection \<open>The pandas operations used by the pipeline\<close>

text \<open>\<open>Series.pct_change()\<close>: NaN at position 0, then \<open>p[t] / p[t-1] - 1\<close>.\<close>

definition pct_change :: "real list \<Rightarrow> real option list" where
  "pct_change ps =
     map (\<lambda>t. if t = 0 then None else Some (ps ! t / ps ! (t - 1) - 1)) [0..<length ps]"

text \<open>\<open>Series.fillna(v)\<close>: every missing value is replaced by \<open>v\<close>.\<close>

definition fillna :: "real \<Rightarrow> real option list \<Rightarrow> real list" where
  "fillna v xs = map (\<lambda>x. case x of None \<Rightarrow> v | Some y \<Rightarrow> y) xs"

text \<open>
  \<open>Series.rolling(w).sum()\<close> with the default \<open>min_periods = w\<close>: the value at \<open>t\<close>
  is the sum of the \<open>w\<close> entries ending at \<open>t\<close>, and NaN while fewer than \<open>w\<close> entries
  are available, that is at the positions \<open>t < w - 1\<close>.
\<close>

definition rolling_sum :: "nat \<Rightarrow> real list \<Rightarrow> real option list" where
  "rolling_sum w xs =
     map (\<lambda>t. if t + 1 < w then None else Some (sum_list (take w (drop (t + 1 - w) xs))))
       [0..<length xs]"

text \<open>\<open>(s > 0).astype(int)\<close>: a comparison with NaN is False.\<close>

definition gt0_int :: "real option list \<Rightarrow> int list" where
  "gt0_int xs = map (\<lambda>x. case x of None \<Rightarrow> 0 | Some v \<Rightarrow> if 0 < v then 1 else 0) xs"

text \<open>\<open>Series.shift(1)\<close>: NaN at position 0, then the previous entry.\<close>

definition shift1 :: "real list \<Rightarrow> real option list" where
  "shift1 xs = map (\<lambda>t. if t = 0 then None else Some (xs ! (t - 1))) [0..<length xs]"

text \<open>\<open>Series.diff()\<close>: NaN at position 0, then \<open>x[t] - x[t-1]\<close>.\<close>

definition diff :: "real list \<Rightarrow> real option list" where
  "diff xs = map (\<lambda>t. if t = 0 then None else Some (xs ! t - xs ! (t - 1))) [0..<length xs]"

text \<open>\<open>Series.abs()\<close> keeps NaN.\<close>

definition abs_series :: "real option list \<Rightarrow> real option list" where
  "abs_series xs = map (map_option abs) xs"

text \<open>\<open>Series.mean()\<close> is NaN on an empty series.\<close>

definition mean :: "real list \<Rightarrow> real option" where
  "mean xs = (if xs = [] then None else Some (sum_list xs / real (length xs)))"

text \<open>
  \<open>Series.std()\<close> is the sample standard deviation (\<open>ddof = 1\<close>), NaN when the series
  has fewer than two entries.
\<close>

definition std :: "real list \<Rightarrow> real option" where
  "std xs =
     (if length xs < 2 then None
      else let m = sum_list xs / real (length xs)
           in Some (sqrt (sum_list (map (\<lambda>x. (x - m)\<^sup>2) xs) / real (length xs - 1))))"

text \<open>\<open>Series.cumprod()\<close> and \<open>Series.cummax()\<close>, as running accumulations.\<close>

fun cumprod_from :: "real \<Rightarrow> real list \<Rightarrow> real list" where
  "cumprod_from a [] = []"
| "cumprod_from a (x # xs) = (a * x) # cumprod_from (a * x) xs"

definition cumprod :: "real list \<Rightarrow> real list" where
  "cumprod xs = cumprod_from 1 xs"

fun cummax_from :: "real \<Rightarrow> real list \<Rightarrow> real list" where
  "cummax_from m [] = []"
| "cummax_from m (x # xs) = max m x # cummax_from (max m x) xs"

definition cummax :: "real list \<Rightarrow> real list" where
  "cummax xs = (case xs of [] \<Rightarrow> [] | x # r \<Rightarrow> x # cummax_from x r)"

text \<open>\<open>Series.min()\<close> is NaN on an empty series.\<close>

definition series_min :: "real list \<Rightarrow> real option" where
  "series_min xs = (case xs of [] \<Rightarrow> None | x # r \<Rightarrow> Some (fold min r x))"

text \<open>
  \<open>b ** e\<close> on doubles: the real power for a positive base; for a negative base the
  result is NaN unless the exponent is a whole number.
\<close>

definition fpow :: "real \<Rightarrow> real \<Rightarrow> real option" where
  "fpow b e =
     (if 0 < b then Some (b powr e)
      else if b = 0 then (if 0 < e then Some 0 else if e = 0 then Some 1 else None)
      else if e = of_int \<lfloor>e\<rfloor> then Some (b powi \<lfloor>e\<rfloor>) else None)"

subsection \<open>The pipeline\<close>

text \<open>\<open>ret = prices.pct_change().fillna(0)\<close>\<close>

definition ret :: "real list \<Rightarrow> real list" where
  "ret prices = fillna 0 (pct_change prices)"

text \<open>\<open>signal = (ret.rolling(lookback).sum() > 0).astype(int)\<close>\<close>

definition signal :: "real list \<Rightarrow> nat \<Rightarrow> int list" where
  "signal prices lookback = gt0_int (rolling_sum lookback (ret prices))"

text \<open>\<open>pos = signal.shift(1).fillna(0)\<close>\<close>

definition pos :: "real list \<Rightarrow> nat \<Rightarrow> real list" where
  "pos prices lookback = fillna 0 (shift1 (map real_of_int (signal prices lookback)))"

text \<open>\<open>strategy_ret = pos * ret - fee * pos.diff().abs().fillna(0)\<close>\<close>

definition strategy_ret :: "real list \<Rightarrow> nat \<Rightarrow> real \<Rightarrow> real list" where
  "strategy_ret prices lookback fee =
     map (\<lambda>(p, r, d). p * r - fee * d)
       (zip (pos prices lookback)
         (zip (ret prices) (fillna 0 (abs_series (diff (pos prices lookback))))))"

definition ann :: real where
  "ann = 252"

text \<open>
  The Sharpe ratio with its guard:
  \<open>if strategy_ret.std() == 0: sharpe = 0.0 else: (mean / std) * sqrt(ann)\<close>.
  A NaN standard deviation is not equal to 0 and gives a NaN ratio.
\<close>

definition sharpe_of :: "real list \<Rightarrow> real option" where
  "sharpe_of sr =
     (if std sr = Some 0 then Some 0
      else case (mean sr, std sr) of
             (Some m, Some s) \<Rightarrow> Some (m / s * sqrt ann)
           | _ \<Rightarrow> None)"

text \<open>\<open>equity = (1 + strategy_ret).cumprod()\<close>\<close>

definition equity_of :: "real list \<Rightarrow> real list" where
  "equity_of sr = cumprod (map (\<lambda>x. 1 + x) sr)"

text \<open>
  The CAGR of \<open>momentum_backtest\<close>:
  \<open>if len(strategy_ret) == 0 or equity.iloc[-1] <= 0: 0.0
    else: equity.iloc[-1] ** (ann / len(strategy_ret)) - 1\<close>.
\<close>

definition cagr_of :: "real list \<Rightarrow> real list \<Rightarrow> real option" where
  "cagr_of sr eq =
     (if length sr = 0 \<or> last eq \<le> 0 then Some 0
      else map_option (\<lambda>v. v - 1) (fpow (last eq) (ann / real (length sr))))"

text \<open>\<open>mdd = (equity / equity.cummax() - 1).min()\<close>\<close>

definition drawdown :: "real list \<Rightarrow> real list" where
  "drawdown eq = map (\<lambda>(e, c). e / c - 1) (zip eq (cummax eq))"

definition mdd_of :: "real list \<Rightarrow> real option" where
  "mdd_of eq = series_min (drawdown eq)"

text \<open>
  \<open>momentum_backtest(prices, lookback, fee)\<close>: the two checks, in the order of the
  source, then the pipeline. \<open>lookback\<close> is a Python integer.
\<close>

definition momentum_backtest :: "real list \<Rightarrow> int \<Rightarrow> real \<Rightarrow> error + results" where
  "momentum_backtest prices lookback fee =
     (if lookback \<le> 0 then Inl InvalidParameter
      else if int (length prices) < lookback + 2 then Inl InsufficientData
      else
        let sr = strategy_ret prices (nat lookback) fee;
            eq = equity_of sr
        in Inr \<lparr>cagr = cagr_of sr eq, sharpe = sharpe_of sr, max_dd = mdd_of eq,
                returns = sr, equity = eq\<rparr>)"

text \<open>
  The precondition of the engine: positive prices, a positive window, a non-negative
  fee and at least \<open>lookback + 2\<close> prices.
\<close>

definition valid_input :: "real list \<Rightarrow> int \<Rightarrow> real \<Rightarrow> bool" where
  "valid_input prices lookback fee \<longleftrightarrow>
     list_all (\<lambda>p. 0 < p) prices \<and> 0 < lookback \<and> 0 \<le> fee
     \<and> lookback + 2 \<le> int (length prices)"

section \<open>The standalone script \<open>src/backtest.py\<close>\<close>

text \<open>
  The script runs the same pipeline as module-level statements on the loaded price
  series, with the window 3 and the fee 0.0001 written into it, and prints the three
  metrics. It has no check of the length of the series, and its CAGR has the guard
  \<open>len(strategy_ret) == 0\<close> only.
\<close>

definition script_ret :: "real list \<Rightarrow> real list" where
  "script_ret prices = fillna 0 (pct_change prices)"

definition script_signal :: "real list \<Rightarrow> int list" where
  "script_signal prices = gt0_int (rolling_sum 3 (script_ret prices))"

definition script_pos :: "real list \<Rightarrow> real list" where
  "script_pos prices = fillna 0 (shift1 (map real_of_int (script_signal prices)))"

definition script_fee :: real where
  "script_fee = 1 / 10000"

definition script_strategy_ret :: "real list \<Rightarrow> real list" where
  "script_strategy_ret prices =
     map (\<lambda>(p, r, d). p * r - script_fee * d)
       (zip (script_pos prices)
         (zip (script_ret prices) (fillna 0 (abs_series (diff (script_pos prices))))))"

definition script_sharpe :: "real list \<Rightarrow> real option" where
  "script_sharpe prices =
     (let sr = script_strategy_ret prices
      in if std sr = Some 0 then Some 0
         else case (mean sr, std sr) of
                (Some m, Some s) \<Rightarrow> Some (m / s * sqrt 252)
              | _ \<Rightarrow> None)"

definition script_equity :: "real list \<Rightarrow> real list" where
  "script_equity prices = cumprod (map (\<lambda>x. 1 + x) (script_strategy_ret prices))"

definition script_cagr :: "real list \<Rightarrow> real option" where
  "script_cagr prices =
     (let sr = script_strategy_ret prices; eq = script_equity prices
      in if length sr = 0 then Some 0
         else map_option (\<lambda>v. v - 1) (fpow (last eq) (252 / real (length sr))))"

definition script_mdd :: "real list \<Rightarrow> real option" where
  "script_mdd prices =
     (let eq = script_equity prices
      in series_min (map (\<lambda>(e, c). e / c - 1) (zip eq (cummax eq))))"

section \<open>The maximum drawdown as the specification words it\<close>

text \<open>
  The running maximum of the equity up to and including period \<open>t\<close>, and the least
  value over all periods of \<open>Equity[t] / runningMax(Equity[0..t]) - 1\<close>.
\<close>

definition running_max :: "real list \<Rightarrow> nat \<Rightarrow> real" where
  "running_max eq t = Max (set (take (t + 1) eq))"

definition spec_max_drawdown :: "real list \<Rightarrow> real" where
  "spec_max_drawdown eq =
     Min (set (map (\<lambda>t. eq ! t / running_max eq t - 1) [0..<length eq]))"

section \<open>The range of doubles\<close>



section \<open>Lengths and entries of the intermediate series\<close>

lemma length_pct_change [simp]: "length (pct_change ps) = length ps"
  by (simp add: pct_change_def)

lemma length_fillna [simp]: "length (fillna v xs) = length xs"
  by (simp add: fillna_def)

lemma length_rolling_sum [simp]: "length (rolling_sum w xs) = length xs"
  by (simp add: rolling_sum_def)

lemma length_gt0_int [simp]: "length (gt0_int xs) = length xs"
  by (simp add: gt0_int_def)

lemma length_shift1 [simp]: "length (shift1 xs) = length xs"
  by (simp add: shift1_def)

lemma length_diff [simp]: "length (diff xs) = length xs"
  by (simp add: diff_def)

lemma length_abs_series [simp]: "length (abs_series xs) = length xs"
  by (simp add: abs_series_def)

lemma length_ret [simp]: "length (ret ps) = length ps"
  by (simp add: ret_def)

lemma length_signal [simp]: "length (signal ps w) = length ps"
  by (simp add: signal_def)

lemma length_pos [simp]: "length (pos ps w) = length ps"
  by (simp add: pos_def)

lemma length_strategy_ret [simp]: "length (strategy_ret ps w fee) = length ps"
  by (simp add: strategy_ret_def)

lemma length_cumprod_from [simp]: "length (cumprod_from a xs) = length xs"
  by (induction xs arbitrary: a) simp_all

lemma length_cummax_from [simp]: "length (cummax_from m xs) = length xs"
  by (induction xs arbitrary: m) simp_all

lemma length_cummax [simp]: "length (cummax xs) = length xs"
  by (simp add: cummax_def split: list.splits)

lemma length_equity_of [simp]: "length (equity_of sr) = length sr"
  by (simp add: equity_of_def cumprod_def)

lemma length_drawdown [simp]: "length (drawdown eq) = length eq"
  by (simp add: drawdown_def)

lemma ret_nth:
  "t < length ps \<Longrightarrow> ret ps ! t = (if t = 0 then 0 else ps ! t / ps ! (t - 1) - 1)"
  by (simp add: ret_def fillna_def pct_change_def)

lemma signal_nth:
  "t < length ps \<Longrightarrow>
   signal ps w ! t =
     (if t + 1 < w then 0
      else if 0 < sum_list (take w (drop (t + 1 - w) (ret ps))) then 1 else 0)"
  by (simp add: signal_def gt0_int_def rolling_sum_def)

lemma pos_nth:
  "t < length ps \<Longrightarrow>
   pos ps w ! t = (if t = 0 then 0 else real_of_int (signal ps w ! (t - 1)))"
  by (simp add: pos_def fillna_def shift1_def)

lemma strategy_ret_nth:
  "t < length ps \<Longrightarrow>
   strategy_ret ps w fee ! t =
     pos ps w ! t * ret ps ! t
       - fee * (if t = 0 then 0 else \<bar>pos ps w ! t - pos ps w ! (t - 1)\<bar>)"
  by (simp add: strategy_ret_def fillna_def abs_series_def diff_def)

lemma strategy_ret_0: "0 < length ps \<Longrightarrow> strategy_ret ps w fee ! 0 = 0"
  by (simp add: strategy_ret_nth pos_nth)

lemma equity_of_0: "sr \<noteq> [] \<Longrightarrow> equity_of sr ! 0 = 1 + sr ! 0"
  by (cases sr) (simp_all add: equity_of_def cumprod_def)

section \<open>Validation\<close>

text \<open>
  C3: \<open>momentum_backtest\<close> raises the invalid-parameter error exactly when
  \<open>lookback \<le> 0\<close>; for a positive \<open>lookback\<close> it raises the insufficient-data error
  exactly when \<open>len(prices) < lookback + 2\<close>, so that \<open>lookback + 1\<close> prices are refused
  and \<open>lookback + 2\<close> are accepted; on every accepted input it returns a result.
\<close>

theorem validation_errors:
  "(momentum_backtest prices lookback fee = Inl InvalidParameter \<longleftrightarrow> lookback \<le> 0)
   \<and> (0 < lookback \<longrightarrow>
        (momentum_backtest prices lookback fee = Inl InsufficientData
           \<longleftrightarrow> int (length prices) < lookback + 2))
   \<and> (0 < lookback \<and> lookback + 2 \<le> int (length prices) \<longrightarrow>
        (\<exists>r. momentum_backtest prices lookback fee = Inr r))"
  by (simp add: momentum_backtest_def Let_def)

theorem validation_errors_witness:
  "momentum_backtest [100, 101, 102] 0 0 = Inl InvalidParameter
   \<and> momentum_backtest [100, 101] 1 0 = Inl InsufficientData
   \<and> (\<exists>r. momentum_backtest [100, 101, 102] 1 0 = Inr r)"
  using validation_errors [of "[100, 101, 102]" 0 0]
    validation_errors [of "[100, 101]" 1 0]
    validation_errors [of "[100, 101, 102]" 1 0]
  by simp

text \<open>
  C2: the claim is that \<open>momentum_backtest\<close> refuses a negative fee. The function has
  no check of \<open>fee\<close> (only \<open>main\<close> of \<open>cli_backtest.py\<close> has one, before it calls the
  engine): on the seven prices below with the window 3 and the fee \<open>-0.01\<close> it returns
  a result, in which each change of position adds 0.01 to the return of its period.
\<close>

theorem negative_fee_accepted:
  "map_sum id returns
     (momentum_backtest [100, 101, 102, 101, 99, 100, 103] 3 (- 1 / 100))
   = Inr [0, 0, 0, 1 / 5100, - (2 / 101), 1 / 100, 0]"
  by (simp add: momentum_backtest_def Let_def strategy_ret_def pos_def signal_def
      gt0_int_def rolling_sum_def ret_def fillna_def pct_change_def shift1_def diff_def
      abs_series_def upt_rec)

section \<open>The warm-up of the signal\<close>

text \<open>
  C1, as stated: on every valid input the signal is 0 at each of the periods
  \<open>0, ..., lookback - 1\<close>. This fails: the return of period 0 is filled with 0 before
  the rolling sum is taken, so the window ending at period \<open>lookback - 1\<close> is full. On
  the prices of the worked example with the window 3 the signal at period 2 is 1.
\<close>

theorem signal_first_lookback_counterexample:
  "valid_input [100, 101, 102, 101, 99, 100, 103] 3 0
   \<and> (2::nat) < nat 3
   \<and> signal [100, 101, 102, 101, 99, 100, 103] (nat 3) ! 2 = 1"
  by (simp add: valid_input_def signal_def gt0_int_def rolling_sum_def ret_def fillna_def
      pct_change_def upt_rec)

text \<open>
  C1, as amended: on every valid input the signal is 0 at each of the periods
  \<open>0, ..., lookback - 2\<close>, and from period \<open>lookback - 1\<close> on it is 1 exactly when the
  sum of the \<open>lookback\<close> period returns ending at that period (the return 0 of period 0
  among them) is positive.
\<close>

theorem signal_warm_up:
  assumes "valid_input prices lookback fee" and "t < length prices"
  shows "(t + 1 < nat lookback \<longrightarrow> signal prices (nat lookback) ! t = 0)
    \<and> (nat lookback \<le> t + 1 \<longrightarrow>
         (signal prices (nat lookback) ! t = 1
            \<longleftrightarrow> 0 < sum_list (take (nat lookback) (drop (t + 1 - nat lookback) (ret prices)))))"
  using assms(2) by (simp add: signal_nth)

theorem signal_warm_up_witness:
  "valid_input [100, 101, 102, 101, 99, 100, 103] 3 0
   \<and> signal [100, 101, 102, 101, 99, 100, 103] (nat 3) ! 1 = 0
   \<and> signal [100, 101, 102, 101, 99, 100, 103] (nat 3) ! 2 = 1"
proof -
  have v: "valid_input [100, 101, 102, 101, 99, 100, 103] 3 0"
    by (simp add: valid_input_def)
  have l1: "(1::nat) < length [100, 101, 102, 101, 99, 100, 103 :: real]" by simp
  have l2: "(2::nat) < length [100, 101, 102, 101, 99, 100, 103 :: real]" by simp
  show ?thesis
    using v signal_warm_up [OF v l1] signal_warm_up [OF v l2]
    by (simp add: ret_def fillna_def pct_change_def upt_rec)
qed

section \<open>Shape of the result\<close>

text \<open>
  C7: on every valid input the engine returns a result whose strategy returns are as
  many as the prices and whose equity at period 0 is 1.
\<close>

theorem lengths_and_initial_equity:
  assumes "valid_input prices lookback fee"
  shows "\<exists>r. momentum_backtest prices lookback fee = Inr r
    \<and> length (returns r) = length prices \<and> equity r ! 0 = 1"
proof -
  from assms have lb: "0 < lookback" and len: "lookback + 2 \<le> int (length prices)"
    by (simp_all add: valid_input_def)
  then have ne: "0 < length prices" by linarith
  then have "strategy_ret prices (nat lookback) fee \<noteq> []"
    by (metis length_strategy_ret less_numeral_extra(3) list.size(3))
  with ne have "equity_of (strategy_ret prices (nat lookback) fee) ! 0 = 1"
    by (simp add: equity_of_0 strategy_ret_0)
  with lb len show ?thesis
    by (simp add: momentum_backtest_def Let_def)
qed

theorem lengths_and_initial_equity_witness:
  "valid_input [100, 101, 102, 101, 99, 100, 103] 3 0
   \<and> (\<exists>r. momentum_backtest [100, 101, 102, 101, 99, 100, 103] 3 0 = Inr r
         \<and> length (returns r) = length [100, 101, 102, 101, 99, 100, 103 :: real]
         \<and> equity r ! 0 = 1)"
proof -
  have v: "valid_input [100, 101, 102, 101, 99, 100, 103] 3 0"
    by (simp add: valid_input_def)
  from v lengths_and_initial_equity [OF v] show ?thesis by blast
qed

section \<open>No look-ahead in the position\<close>

lemma ret_take_cong:
  assumes "take t ps = take t ps'" and "t \<le> length ps" and "t \<le> length ps'"
  shows "take t (ret ps) = take t (ret ps')"
proof (rule nth_equalityI)
  show "length (take t (ret ps)) = length (take t (ret ps'))"
    using assms by simp
next
  fix i assume "i < length (take t (ret ps))"
  then have i: "i < t" by simp
  have eq: "ps ! j = ps' ! j" if "j < t" for j
    using that assms(1) by (metis nth_take)
  from i assms show "take t (ret ps) ! i = take t (ret ps') ! i"
    by (simp add: ret_nth eq)
qed

lemma window_before:
  "w \<le> t \<Longrightarrow> take w (drop (t - w) xs) = drop (t - w) (take t xs)"
  by (simp add: drop_take)

text \<open>
  C9: the position at period \<open>t\<close> does not depend on the price at \<open>t\<close> or later: two
  price series that agree on all entries before \<open>t\<close> give the same position at \<open>t\<close>,
  for every window.
\<close>

theorem position_no_lookahead:
  assumes "take t ps = take t ps'" and "t < length ps" and "t < length ps'"
  shows "pos ps w ! t = pos ps' w ! t"
proof (cases "t = 0")
  case True
  with assms show ?thesis by (simp add: pos_nth)
next
  case False
  have tk: "take t (ret ps) = take t (ret ps')"
    using assms by (intro ret_take_cong) simp_all
  have "signal ps w ! (t - 1) = signal ps' w ! (t - 1)"
  proof (cases "t < w")
    case True
    with False assms show ?thesis by (simp add: signal_nth)
  next
    case ge: False
    then have "take w (drop (t - w) (ret ps)) = take w (drop (t - w) (ret ps'))"
      by (simp add: window_before tk)
    with False assms show ?thesis by (simp add: signal_nth)
  qed
  with False assms show ?thesis by (simp add: pos_nth)
qed

theorem position_no_lookahead_witness:
  "pos [100, 101, 102, 101, 99, 100, 103] 3 ! 6 = pos [100, 101, 102, 101, 99, 100, 50] 3 ! 6"
  using position_no_lookahead [of 6 "[100, 101, 102, 101, 99, 100, 103]"
      "[100, 101, 102, 101, 99, 100, 50]" 3]
  by simp

section \<open>The metrics\<close>

text \<open>
  C5: on every valid input the CAGR of the result is 0 when there are no strategy
  returns or the last equity value is at most 0, and otherwise
  \<open>equity[-1] ** (252 / len(strategy_ret)) - 1\<close>.
\<close>

theorem cagr_formula:
  assumes "valid_input prices lookback fee"
  shows "\<exists>r. momentum_backtest prices lookback fee = Inr r
    \<and> cagr r =
        Some (if length (returns r) = 0 \<or> last (equity r) \<le> 0 then 0
              else last (equity r) powr (252 / real (length (returns r))) - 1)"
  using assms
  by (simp add: valid_input_def momentum_backtest_def Let_def cagr_of_def fpow_def ann_def)

theorem cagr_formula_witness:
  "valid_input [100, 101, 102, 101, 99, 100, 103] 3 0
   \<and> (\<exists>r. momentum_backtest [100, 101, 102, 101, 99, 100, 103] 3 0 = Inr r
         \<and> cagr r =
             Some (if length (returns r) = 0 \<or> last (equity r) \<le> 0 then 0
                   else last (equity r) powr (252 / real (length (returns r))) - 1))"
proof -
  have v: "valid_input [100, 101, 102, 101, 99, 100, 103] 3 0"
    by (simp add: valid_input_def)
  from v cagr_formula [OF v] show ?thesis by blast
qed

subsection \<open>A flat price series\<close>

lemma flat_ret:
  assumes "\<forall>p\<in>set ps. p = c" and "c \<noteq> 0"
  shows "ret ps = replicate (length ps) 0"
proof (rule nth_equalityI)
  show "length (ret ps) = length (replicate (length ps) 0)" by simp
next
  fix i assume "i < length (ret ps)"
  then have i: "i < length ps" by simp
  then have "ps ! i = c" and "ps ! (i - 1) = c"
    using assms(1) by (simp_all add: less_imp_diff_less)
  with i assms(2) show "ret ps ! i = replicate (length ps) 0 ! i"
    by (simp add: ret_nth)
qed

lemma zero_ret_signal:
  assumes "ret ps = replicate (length ps) 0"
  shows "signal ps w = replicate (length ps) 0"
  by (rule nth_equalityI) (simp_all add: signal_nth assms sum_list_replicate)

lemma zero_signal_pos:
  assumes "signal ps w = replicate (length ps) 0"
  shows "pos ps w = replicate (length ps) 0"
  by (rule nth_equalityI) (simp_all add: pos_nth assms)

lemma zero_pos_strategy_ret:
  assumes "pos ps w = replicate (length ps) 0"
  shows "strategy_ret ps w fee = replicate (length ps) 0"
  by (rule nth_equalityI) (simp_all add: strategy_ret_nth assms)

lemma flat_strategy_ret:
  assumes "\<forall>p\<in>set ps. p = c" and "c \<noteq> 0"
  shows "strategy_ret ps w fee = replicate (length ps) 0"
  using assms by (intro zero_pos_strategy_ret zero_signal_pos zero_ret_signal flat_ret)

lemma std_zeros: "2 \<le> n \<Longrightarrow> std (replicate n 0) = Some 0"
  by (simp add: std_def Let_def sum_list_replicate)

lemma cumprod_from_ones: "cumprod_from a (replicate n 1) = replicate n a"
  by (induction n) simp_all

lemma equity_of_zeros: "equity_of (replicate n 0) = replicate n 1"
  by (simp add: equity_of_def cumprod_def cumprod_from_ones)

lemma sharpe_zeros: "2 \<le> n \<Longrightarrow> sharpe_of (replicate n 0) = Some 0"
  by (simp add: sharpe_of_def std_zeros)

lemma cagr_zeros: "cagr_of (replicate n 0) (replicate n 1) = Some 0"
  by (cases n) (simp_all add: cagr_of_def fpow_def)

lemma std_defined: "2 \<le> length xs \<Longrightarrow> \<exists>s. std xs = Some s"
  by (simp add: std_def Let_def)

lemma mean_defined: "xs \<noteq> [] \<Longrightarrow> \<exists>m. mean xs = Some m"
  by (simp add: mean_def)

text \<open>
  C4: on every valid input the mean and the sample standard deviation of the strategy
  returns are defined, and the Sharpe ratio of the result is 0 when that standard
  deviation is 0 and \<open>mean / std * sqrt(252)\<close> otherwise; when all prices are equal,
  the Sharpe ratio and the CAGR are both 0.
\<close>

theorem sharpe_formula:
  assumes "valid_input prices lookback fee"
  shows "\<exists>r m s. momentum_backtest prices lookback fee = Inr r
    \<and> mean (returns r) = Some m \<and> std (returns r) = Some s
    \<and> sharpe r = Some (if s = 0 then 0 else m / s * sqrt 252)
    \<and> ((\<forall>p\<in>set prices. p = hd prices) \<longrightarrow> sharpe r = Some 0 \<and> cagr r = Some 0)"
proof -
  let ?sr = "strategy_ret prices (nat lookback) fee"
  from assms have lb: "0 < lookback" and len: "lookback + 2 \<le> int (length prices)"
    and ps: "\<forall>p\<in>set prices. 0 < p"
    by (simp_all add: valid_input_def list_all_iff)
  from lb len have n: "3 \<le> length prices" by linarith
  then have ne: "prices \<noteq> []" by auto
  from n obtain s where s: "std ?sr = Some s"
    using std_defined [of ?sr] by auto
  from n have "?sr \<noteq> []" by (metis length_strategy_ret list.size(3) not_numeral_le_zero)
  then obtain m where m: "mean ?sr = Some m"
    using mean_defined by blast
  have sh: "sharpe_of ?sr = Some (if s = 0 then 0 else m / s * sqrt 252)"
    by (simp add: sharpe_of_def s m ann_def)
  have flat: "sharpe_of ?sr = Some 0 \<and> cagr_of ?sr (equity_of ?sr) = Some 0"
    if "\<forall>p\<in>set prices. p = hd prices"
  proof -
    from ne ps have "hd prices \<noteq> 0" by (metis hd_in_set less_numeral_extra(3))
    with that have "?sr = replicate (length prices) 0"
      by (rule flat_strategy_ret)
    with n show ?thesis
      by (simp add: sharpe_zeros equity_of_zeros cagr_zeros)
  qed
  from lb len s m sh flat show ?thesis
    by (simp add: momentum_backtest_def Let_def)
qed

theorem sharpe_formula_witness:
  "valid_input [100, 100, 100] 1 (1 / 10000)
   \<and> (\<exists>r. momentum_backtest [100, 100, 100] 1 (1 / 10000) = Inr r
         \<and> sharpe r = Some 0 \<and> cagr r = Some 0)"
proof -
  have v: "valid_input [100, 100, 100] 1 (1 / 10000)"
    by (simp add: valid_input_def)
  have f: "\<forall>p\<in>set [100, 100, 100 :: real]. p = hd [100, 100, 100]"
    by simp
  from v f sharpe_formula [OF v] show ?thesis by blast
qed

section \<open>The maximum drawdown\<close>

lemma strategy_ret_empty_iff [simp]: "strategy_ret ps w fee = [] \<longleftrightarrow> ps = []"
  by (simp flip: length_0_conv)

lemma equity_of_empty_iff [simp]: "equity_of sr = [] \<longleftrightarrow> sr = []"
  by (simp flip: length_0_conv)

lemma cummax_from_nth:
  "i < length xs \<Longrightarrow> cummax_from m xs ! i = max m (Max (set (take (Suc i) xs)))"
proof (induction xs arbitrary: m i)
  case Nil
  then show ?case by simp
next
  case (Cons x xs)
  show ?case
  proof (cases i)
    case 0
    then show ?thesis by simp
  next
    case (Suc j)
    with Cons.prems have j: "j < length xs" by simp
    then have ne: "set (take (Suc j) xs) \<noteq> {}" by (cases xs) auto
    from Suc Cons.IH [OF j] ne show ?thesis
      by (simp add: max.assoc)
  qed
qed

lemma cummax_nth:
  assumes "t < length xs"
  shows "cummax xs ! t = running_max xs t"
proof (cases xs)
  case Nil
  with assms show ?thesis by simp
next
  case (Cons x r)
  show ?thesis
  proof (cases t)
    case 0
    with Cons show ?thesis by (simp add: cummax_def running_max_def)
  next
    case (Suc j)
    with assms Cons have j: "j < length r" by simp
    then have ne: "set (take (Suc j) r) \<noteq> {}" by (cases r) auto
    from Suc Cons j ne show ?thesis
      by (simp add: cummax_def running_max_def cummax_from_nth)
  qed
qed

lemma drawdown_nth:
  "t < length eq \<Longrightarrow> drawdown eq ! t = eq ! t / running_max eq t - 1"
  by (simp add: drawdown_def cummax_nth)

lemma drawdown_eq_map:
  "drawdown eq = map (\<lambda>t. eq ! t / running_max eq t - 1) [0..<length eq]"
  by (rule nth_equalityI) (simp_all add: drawdown_nth)

lemma series_min_Min: "xs \<noteq> [] \<Longrightarrow> series_min xs = Some (Min (set xs))"
proof (cases xs)
  case Nil
  assume "xs \<noteq> []"
  with Nil show ?thesis by simp
next
  case (Cons x r)
  have "fold min r x = Min (set (x # r))" by (rule Min.set_eq_fold [symmetric])
  with Cons show ?thesis by (simp add: series_min_def)
qed

lemma mdd_of_spec: "eq \<noteq> [] \<Longrightarrow> mdd_of eq = Some (spec_max_drawdown eq)"
proof -
  assume ne: "eq \<noteq> []"
  then have "drawdown eq \<noteq> []"
    by (simp flip: length_greater_0_conv)
  then have "mdd_of eq = Some (Min (set (drawdown eq)))"
    by (simp add: mdd_of_def series_min_Min)
  then show ?thesis
    by (simp only: spec_max_drawdown_def drawdown_eq_map [symmetric])
qed

lemma running_max_ge:
  assumes "s \<le> t" and "t < length eq"
  shows "eq ! s \<le> running_max eq t"
proof -
  from assms have "s < length (take (t + 1) eq)" by simp
  then have "take (t + 1) eq ! s \<in> set (take (t + 1) eq)" by (rule nth_mem)
  with assms have "eq ! s \<in> set (take (t + 1) eq)" by simp
  then show ?thesis by (simp add: running_max_def)
qed

lemma running_max_mem:
  assumes "t < length eq"
  shows "\<exists>s\<le>t. running_max eq t = eq ! s"
proof -
  from assms have ne: "set (take (t + 1) eq) \<noteq> {}" by (cases eq) auto
  then have "running_max eq t \<in> set (take (t + 1) eq)"
    unfolding running_max_def by (intro Max_in) simp_all
  then obtain i where i: "i < length (take (t + 1) eq)" "take (t + 1) eq ! i = running_max eq t"
    by (auto simp: in_set_conv_nth)
  then have "i \<le> t" "eq ! i = running_max eq t" by simp_all
  then show ?thesis by metis
qed

lemma drawdown_nonpos:
  assumes "eq ! 0 = 1" and "t < length eq"
  shows "drawdown eq ! t \<le> 0"
proof -
  from assms have "1 \<le> running_max eq t"
    using running_max_ge [of 0 t eq] by simp
  moreover from assms have "eq ! t \<le> running_max eq t"
    using running_max_ge [of t t eq] by simp
  ultimately have "eq ! t / running_max eq t \<le> 1" by simp
  with assms(2) show ?thesis by (simp add: drawdown_nth)
qed

lemma drawdown_zero_sorted:
  assumes one: "eq ! 0 = 1" and z: "\<forall>t<length eq. drawdown eq ! t = 0"
  shows "sorted eq"
proof (unfold sorted_iff_nth_mono, intro allI impI)
  fix i j assume ij: "i \<le> j" and j: "j < length eq"
  from one j have pos: "1 \<le> running_max eq j"
    using running_max_ge [of 0 j eq] by simp
  from z j have "drawdown eq ! j = 0" by blast
  with j have "eq ! j / running_max eq j = 1" by (simp add: drawdown_nth)
  with pos have "eq ! j = running_max eq j" by simp
  with running_max_ge [OF ij j] show "eq ! i \<le> eq ! j" by simp
qed

lemma sorted_drawdown_zero:
  assumes one: "eq ! 0 = 1" and srt: "sorted eq" and t: "t < length eq"
  shows "drawdown eq ! t = 0"
proof -
  from running_max_mem [OF t] obtain s where s: "s \<le> t" "running_max eq t = eq ! s"
    by blast
  with srt t have "running_max eq t \<le> eq ! t" by (simp add: sorted_iff_nth_mono)
  moreover have "eq ! t \<le> running_max eq t" using running_max_ge [of t t eq] t by simp
  ultimately have e: "running_max eq t = eq ! t" by simp
  from one t have "1 \<le> running_max eq t" using running_max_ge [of 0 t eq] by simp
  with e t show ?thesis by (simp add: drawdown_nth)
qed

lemma Min_drawdown:
  assumes one: "eq ! 0 = 1" and ne: "eq \<noteq> []"
  shows "Min (set (drawdown eq)) \<le> 0"
    and "Min (set (drawdown eq)) = 0 \<longleftrightarrow> sorted eq"
proof -
  from ne have "drawdown eq \<noteq> []"
    by (simp flip: length_greater_0_conv)
  then have dne: "set (drawdown eq) \<noteq> {}" by simp
  from ne have "drawdown eq ! 0 \<in> set (drawdown eq)" by (simp add: nth_mem)
  then have "Min (set (drawdown eq)) \<le> drawdown eq ! 0" by simp
  also from one ne have "drawdown eq ! 0 \<le> 0" by (intro drawdown_nonpos) simp_all
  finally show le: "Min (set (drawdown eq)) \<le> 0" .
  show "Min (set (drawdown eq)) = 0 \<longleftrightarrow> sorted eq"
  proof
    assume m: "Min (set (drawdown eq)) = 0"
    have "\<forall>t<length eq. drawdown eq ! t = 0"
    proof (intro allI impI)
      fix t assume t: "t < length eq"
      then have "Min (set (drawdown eq)) \<le> drawdown eq ! t" by simp
      with m drawdown_nonpos [OF one t] show "drawdown eq ! t = 0" by simp
    qed
    with one show "sorted eq" by (rule drawdown_zero_sorted)
  next
    assume srt: "sorted eq"
    have "\<forall>x\<in>set (drawdown eq). x = 0"
      using sorted_drawdown_zero [OF one srt] by (auto simp: in_set_conv_nth)
    moreover from dne have "Min (set (drawdown eq)) \<in> set (drawdown eq)"
      by (intro Min_in) simp_all
    ultimately show "Min (set (drawdown eq)) = 0" by blast
  qed
qed

text \<open>
  C8: on every valid input the maximum drawdown of the result is the least value over
  all periods \<open>t\<close> of \<open>Equity[t] / runningMax(Equity[0..t]) - 1\<close>; it is at most 0,
  and it is 0 only if the equity never decreases.
\<close>

theorem max_drawdown_spec:
  assumes "valid_input prices lookback fee"
  shows "\<exists>r m. momentum_backtest prices lookback fee = Inr r
    \<and> max_dd r = Some m
    \<and> m = spec_max_drawdown (equity r)
    \<and> m \<le> 0
    \<and> (m = 0 \<longrightarrow> sorted (equity r))"
proof -
  let ?sr = "strategy_ret prices (nat lookback) fee"
  let ?eq = "equity_of ?sr"
  from assms have lb: "0 < lookback" and len: "lookback + 2 \<le> int (length prices)"
    by (simp_all add: valid_input_def)
  then have n: "0 < length prices" by linarith
  then have sne: "?sr \<noteq> []"
    by (simp flip: length_greater_0_conv)
  with n have ene: "?eq \<noteq> []"
    by (simp flip: length_greater_0_conv)
  from sne n have one: "?eq ! 0 = 1" by (simp add: equity_of_0 strategy_ret_0)
  have m: "mdd_of ?eq = Some (spec_max_drawdown ?eq)"
    using ene by (rule mdd_of_spec)
  have sp: "spec_max_drawdown ?eq = Min (set (drawdown ?eq))"
    by (simp only: spec_max_drawdown_def drawdown_eq_map [symmetric])
  from Min_drawdown [OF one ene] sp
  have "spec_max_drawdown ?eq \<le> 0"
    and "spec_max_drawdown ?eq = 0 \<longrightarrow> sorted ?eq" by simp_all
  with lb len m show ?thesis
    by (simp add: momentum_backtest_def Let_def)
qed

theorem max_drawdown_spec_witness:
  "valid_input [100, 100, 100] 1 0
   \<and> (\<exists>r. momentum_backtest [100, 100, 100] 1 0 = Inr r
         \<and> max_dd r = Some 0 \<and> sorted (equity r))"
proof -
  have v: "valid_input [100, 100, 100] 1 0"
    by (simp add: valid_input_def)
  have sr: "strategy_ret [100, 100, 100] (Suc 0) 0 = [0, 0, 0]"
    by (simp add: strategy_ret_def pos_def signal_def gt0_int_def rolling_sum_def ret_def
      fillna_def pct_change_def shift1_def diff_def abs_series_def upt_rec)
  have md: "map_sum id max_dd (momentum_backtest [100, 100, 100] 1 0) = Inr (Some 0)"
    by (simp add: momentum_backtest_def Let_def sr equity_of_def cumprod_def mdd_of_def
        drawdown_def cummax_def series_min_def)
  from max_drawdown_spec [OF v] obtain r m where
    r: "momentum_backtest [100, 100, 100] 1 0 = Inr r" "max_dd r = Some m"
       "m = 0 \<longrightarrow> sorted (equity r)" by blast
  with md have "m = 0" by simp
  with r v show ?thesis by blast
qed

section \<open>Defined results on every valid input\<close>





section \<open>The script and the engine\<close>

lemma script_strategy_ret_eq:
  "script_strategy_ret prices = strategy_ret prices 3 (1 / 10000)"
  by (simp add: script_strategy_ret_def script_pos_def script_signal_def script_ret_def
      script_fee_def strategy_ret_def pos_def signal_def ret_def)

lemma script_equity_eq:
  "script_equity prices = equity_of (strategy_ret prices 3 (1 / 10000))"
  by (simp add: script_equity_def equity_of_def script_strategy_ret_eq)

text \<open>
  C10, as stated: for every price series whose final equity is positive the script
  gives the CAGR, the Sharpe ratio and the maximum drawdown of
  \<open>momentum_backtest(prices, 3, 0.0001)\<close>. This fails on a series of fewer than five
  prices: the script has no length check and prints three metrics, the engine raises
  the insufficient-data error. On the two prices 100, 101 the final equity is 1.
\<close>

theorem script_short_series_counterexample:
  "0 < last (script_equity [100, 101])
   \<and> script_cagr [100, 101] = Some 0
   \<and> script_sharpe [100, 101] = Some 0
   \<and> script_mdd [100, 101] = Some 0
   \<and> momentum_backtest [100, 101] 3 (1 / 10000) = Inl InsufficientData"
proof -
  have sr: "script_strategy_ret [100, 101] = [0, 0]"
    by (simp add: script_strategy_ret_def script_pos_def script_signal_def script_ret_def
        fillna_def pct_change_def rolling_sum_def gt0_int_def shift1_def diff_def
        abs_series_def upt_rec)
  have eq: "script_equity [100, 101] = [1, 1]"
    by (simp add: script_equity_def sr cumprod_def)
  have "script_cagr [100, 101] = Some 0"
    by (simp add: script_cagr_def Let_def sr eq fpow_def)
  moreover have "script_sharpe [100, 101] = Some 0"
    by (simp add: script_sharpe_def Let_def sr std_def)
  moreover have "script_mdd [100, 101] = Some 0"
    by (simp add: script_mdd_def Let_def eq cummax_def series_min_def)
  moreover have "momentum_backtest [100, 101] 3 (1 / 10000) = Inl InsufficientData"
    by (simp add: momentum_backtest_def)
  ultimately show ?thesis by (simp add: eq)
qed

text \<open>
  C10, as amended: for every series of at least five prices whose final equity is
  positive, the engine with the window 3 and the fee 0.0001 returns a result whose
  CAGR, Sharpe ratio and maximum drawdown are those the script computes.
\<close>

theorem script_agrees_with_engine:
  assumes "5 \<le> length prices" and "0 < last (script_equity prices)"
  shows "\<exists>r. momentum_backtest prices 3 (1 / 10000) = Inr r
    \<and> cagr r = script_cagr prices
    \<and> sharpe r = script_sharpe prices
    \<and> max_dd r = script_mdd prices"
proof -
  let ?sr = "strategy_ret prices 3 (1 / 10000)"
  from assms(2) have p: "\<not> last (equity_of ?sr) \<le> 0"
    by (simp add: script_equity_eq)
  from assms(1) have ne: "prices \<noteq> []" by auto
  have c: "cagr_of ?sr (equity_of ?sr) = script_cagr prices"
    using p ne by (simp add: cagr_of_def script_cagr_def Let_def script_equity_eq
        script_strategy_ret_eq ann_def)
  have s: "sharpe_of ?sr = script_sharpe prices"
    by (simp add: sharpe_of_def script_sharpe_def Let_def script_strategy_ret_eq ann_def
        split: option.splits)
  have m: "mdd_of (equity_of ?sr) = script_mdd prices"
    by (simp add: mdd_of_def drawdown_def script_mdd_def Let_def script_equity_eq)
  from assms(1) c s m show ?thesis
    by (simp add: momentum_backtest_def Let_def)
qed

lemma example_strategy_ret:
  "strategy_ret [100, 101, 102, 101, 99, 100, 103] 3 (1 / 10000)
   = [0, 0, 0, - (1 / 102) - 1 / 10000, - (2 / 101), - (1 / 10000), 0]"
  by (simp add: strategy_ret_def pos_def signal_def gt0_int_def rolling_sum_def ret_def
      fillna_def pct_change_def shift1_def diff_def abs_series_def upt_rec)

theorem script_agrees_with_engine_witness:
  "5 \<le> length [100, 101, 102, 101, 99, 100, 103 :: real]
   \<and> 0 < last (script_equity [100, 101, 102, 101, 99, 100, 103])
   \<and> (\<exists>r. momentum_backtest [100, 101, 102, 101, 99, 100, 103] 3 (1 / 10000) = Inr r
         \<and> cagr r = script_cagr [100, 101, 102, 101, 99, 100, 103]
         \<and> sharpe r = script_sharpe [100, 101, 102, 101, 99, 100, 103]
         \<and> max_dd r = script_mdd [100, 101, 102, 101, 99, 100, 103])"
proof -
  have l: "5 \<le> length [100, 101, 102, 101, 99, 100, 103 :: real]" by simp
  have e: "0 < last (script_equity [100, 101, 102, 101, 99, 100, 103])"
    by (simp add: script_equity_eq example_strategy_ret equity_of_def cumprod_def)
  from l e script_agrees_with_engine [OF l e] show ?thesis by blast
qed

end
